theory Spec2Isabelle
  imports Main "HOL-Library.Sublist"
begin

section \<open>The validation proxy of the application connectivity validator\<close>

text \<open>
  A shallow embedding of package \<open>validationproxy\<close>: the extraction of certificate
  subjects from the \<open>X-Forwarded-Client-Cert\<close> header, the subject validators, the
  cached lookup of the client identifiers of an application, the routing of a request
  path to one of three reverse proxies, and the request options each proxy applies.

  Go strings are byte sequences and are modelled as \<open>string\<close> (a list of characters).
  A run-time panic is a value of type \<open>panic\<close>; a function that can panic returns
  \<open>panic + 'a\<close>. Logging calls have no effect on the results and are left out.
\<close>

subsection \<open>Errors and panics\<close>

datatype panic = IndexOutOfRange

text \<open>
  Modelled from the spec: package \<open>apperrors\<close> is not part of the sources at hand. The
  source builds its errors with \<open>apperrors.Internal\<close>, \<open>apperrors.BadRequest\<close>,
  \<open>apperrors.Forbidden\<close> and \<open>apperrors.NotFound\<close>, each taking a format string and its
  arguments; the spec names the same four error kinds. An error is its kind and its
  formatted message; \<open>Error_msg\<close> is what the verb \<open>%s\<close> prints for it.
\<close>

datatype error_kind = Internal | BadRequest | Forbidden | NotFound

datatype AppError = AppError error_kind string

fun Error_kind :: "AppError \<Rightarrow> error_kind" where
  "Error_kind (AppError k m) = k"

fun Error_msg :: "AppError \<Rightarrow> string" where
  "Error_msg (AppError k m) = m"

subsection \<open>Constants\<close>

definition CertificateInfoHeader :: string where
  "CertificateInfoHeader = ''X-Forwarded-Client-Cert''"

definition BEBEnabledPublishEndpoint :: string where
  "BEBEnabledPublishEndpoint = ''/publish''"

subsection \<open>Certificate subjects\<close>

text \<open>
  \<open>pkix.Name\<close>, with the fields that \<open>parseSubject\<close> fills. All but the common name
  are slices of strings.
\<close>

record pkix_Name =
  CommonName :: string
  Country :: "string list"
  Organization :: "string list"
  OrganizationalUnit :: "string list"
  Locality :: "string list"
  Province :: "string list"

text \<open>
  \<open>strings.Split s sep\<close> for a separator of one byte (the source splits at \<open>","\<close> and
  at \<open>"="\<close>): the pieces between the separators, in order; a string without the
  separator, the empty string too, gives one piece.
\<close>

fun strings_Split :: "string \<Rightarrow> char \<Rightarrow> string list" where
  "strings_Split [] sep = [[]]"
| "strings_Split (c # cs) sep =
     (if c = sep then [] # strings_Split cs sep
      else (case strings_Split cs sep of
              [] \<Rightarrow> [[c]]
            | p # ps \<Rightarrow> (c # p) # ps))"

text \<open>Indexing a slice: Go panics when the index is out of range.\<close>

definition index :: "'a list \<Rightarrow> nat \<Rightarrow> panic + 'a" where
  "index xs i = (if i < length xs then Inr (xs ! i) else Inl IndexOutOfRange)"

text \<open>Reading a Go map of strings: a missing key reads as the empty string.\<close>

definition map_get :: "(string \<rightharpoonup> string) \<Rightarrow> string \<Rightarrow> string" where
  "map_get m k = (case m k of None \<Rightarrow> [] | Some v \<Rightarrow> v)"

text \<open>
  The loop of \<open>extractSubject\<close> over the segments:
  \<open>result[parts[0]] = parts[1]\<close>, with both index expressions checked.
\<close>

fun extractSubject_loop ::
  "(string \<rightharpoonup> string) \<Rightarrow> string list \<Rightarrow> panic + (string \<rightharpoonup> string)" where
  "extractSubject_loop result [] = Inr result"
| "extractSubject_loop result (segment # segments) =
     (let parts = strings_Split segment (CHR ''='') in
      case index parts 0 of
        Inl p \<Rightarrow> Inl p
      | Inr k \<Rightarrow>
          (case index parts 1 of
             Inl p \<Rightarrow> Inl p
           | Inr v \<Rightarrow> extractSubject_loop (result(k \<mapsto> v)) segments))"

definition extractSubject :: "string \<Rightarrow> panic + (string \<rightharpoonup> string)" where
  "extractSubject subject =
     extractSubject_loop Map.empty (strings_Split subject (CHR '',''))"

definition parseSubject :: "string \<Rightarrow> panic + pkix_Name" where
  "parseSubject rawSubject =
     (case extractSubject rawSubject of
        Inl p \<Rightarrow> Inl p
      | Inr subjectInfo \<Rightarrow>
          Inr \<lparr> CommonName = map_get subjectInfo ''CN'',
                Country = [map_get subjectInfo ''C''],
                Organization = [map_get subjectInfo ''O''],
                OrganizationalUnit = [map_get subjectInfo ''OU''],
                Locality = [map_get subjectInfo ''L''],
                Province = [map_get subjectInfo ''ST''] \<rparr>)"

subsection \<open>Extracting the subjects from the header\<close>

text \<open>
  The regular expression \<open>Subject="(.*?)"\<close>: the literal \<open>Subject="\<close>, then as few
  characters as possible, none of them a line feed (no flag lets the dot match one),
  then a double quote. \<open>matchHere s\<close> matches it at the start of \<open>s\<close> and gives the
  text of the group and the input after the match. The lazy group ends at the first
  double quote, so it holds none; a line feed before that quote makes the match fail.
\<close>

definition dquote :: char where
  "dquote = CHR 0x22"

definition linefeed :: char where
  "linefeed = CHR 0x0A"

definition subjectRegex_literal :: string where
  "subjectRegex_literal = ''Subject='' @ [dquote]"

definition inGroup :: "char \<Rightarrow> bool" where
  "inGroup c = (c \<noteq> dquote \<and> c \<noteq> linefeed)"

definition matchHere :: "string \<Rightarrow> (string \<times> string) option" where
  "matchHere s =
     (if prefix subjectRegex_literal s then
        (let rest = drop (length subjectRegex_literal) s in
         case dropWhile inGroup rest of
           [] \<Rightarrow> None
         | q # after \<Rightarrow>
             if q = dquote then Some (takeWhile inGroup rest, after) else None)
      else None)"

text \<open>
  \<open>FindAllStringSubmatch\<close> with \<open>n = -1\<close>: all matches from left to right, none
  overlapping another; the search goes on right after a match, and one character
  further where there is no match. Each match is the slice of the whole match and the
  group.
\<close>

function FindAllStringSubmatch :: "string \<Rightarrow> string list list" where
  "FindAllStringSubmatch [] = []"
| "FindAllStringSubmatch (c # cs) =
     (case matchHere (c # cs) of
        None \<Rightarrow> FindAllStringSubmatch cs
      | Some (inner, after) \<Rightarrow>
          [subjectRegex_literal @ inner @ [dquote], inner] # FindAllStringSubmatch after)"
  by pat_completeness auto
termination
proof (relation "measure length")
  show "wf (measure (length :: string \<Rightarrow> nat))"
    by simp
next
  fix c :: char and cs :: string
  show "(cs, c # cs) \<in> measure length"
    by simp
next
  fix c :: char and cs :: string and x2 :: "string \<times> string" and inner after :: string
  assume m: "matchHere (c # cs) = Some x2" and x: "(inner, after) = x2"
  let ?rest = "drop (length subjectRegex_literal) (c # cs)"
  from m x obtain q where "dropWhile inGroup ?rest = q # after"
    by (auto simp: matchHere_def Let_def split: if_splits list.splits)
  then have "length after < length (dropWhile inGroup ?rest)"
    by simp
  also have "\<dots> \<le> length ?rest"
    by (rule length_dropWhile_le)
  also have "\<dots> \<le> length (c # cs)"
    by simp
  finally show "(after, c # cs) \<in> measure length"
    by simp
qed

definition get :: "string list \<Rightarrow> nat \<Rightarrow> string" where
  "get array i = (if length array > i then array ! i else [])"

fun extractSubjects_loop :: "string list \<Rightarrow> string list list \<Rightarrow> string list" where
  "extractSubjects_loop subjects [] = subjects"
| "extractSubjects_loop subjects (subjectMatch # subjectMatches) =
     (let subject = get subjectMatch 1 in
      if subject \<noteq> [] then extractSubjects_loop (subjects @ [subject]) subjectMatches
      else extractSubjects_loop subjects subjectMatches)"

definition extractSubjects :: "string \<Rightarrow> string list" where
  "extractSubjects certInfoData =
     extractSubjects_loop [] (FindAllStringSubmatch certInfoData)"

subsection \<open>Validating a subject\<close>

type_synonym app_name = string

definition validateCommonNameWithAppName :: "string \<Rightarrow> pkix_Name \<Rightarrow> bool" where
  "validateCommonNameWithAppName appName subject = (appName = CommonName subject)"

fun validateCommonNameWithClientIDs :: "string list \<Rightarrow> pkix_Name \<Rightarrow> bool" where
  "validateCommonNameWithClientIDs [] subject = False"
| "validateCommonNameWithClientIDs (clientID # applicationClientIDs) subject =
     (if CommonName subject = clientID then True
      else validateCommonNameWithClientIDs applicationClientIDs subject)"

definition validateSubjectField :: "string list \<Rightarrow> string \<Rightarrow> bool" where
  "validateSubjectField subjectField expectedValue =
     (length subjectField = 1 \<and> subjectField ! 0 = expectedValue)"

fun areStringsFilled :: "string list \<Rightarrow> bool" where
  "areStringsFilled [] = True"
| "areStringsFilled (str # strs) = (if str = [] then False else areStringsFilled strs)"

definition newSubjectValidator ::
  "string list \<Rightarrow> app_name \<Rightarrow> string \<Rightarrow> string \<Rightarrow> pkix_Name \<Rightarrow> bool" where
  "newSubjectValidator applicationClientIDs appName group_str tenant =
     (if length applicationClientIDs = 0 \<and> \<not> areStringsFilled [group_str, tenant] then
        validateCommonNameWithAppName appName
      else if length applicationClientIDs = 0 \<and> areStringsFilled [group_str, tenant] then
        (\<lambda>subject. validateCommonNameWithAppName appName subject
           \<and> validateSubjectField (Organization subject) tenant
           \<and> validateSubjectField (OrganizationalUnit subject) group_str)
      else if length applicationClientIDs \<noteq> 0 \<and> \<not> areStringsFilled [group_str, tenant] then
        validateCommonNameWithClientIDs applicationClientIDs
      else if length applicationClientIDs \<noteq> 0 \<and> areStringsFilled [group_str, tenant] then
        (\<lambda>subject. validateCommonNameWithClientIDs applicationClientIDs subject
           \<and> validateSubjectField (Organization subject) tenant
           \<and> validateSubjectField (OrganizationalUnit subject) group_str)
      else (\<lambda>subject. False))"

text \<open>
  The loop of \<open>hasValidSubject\<close>: each subject is parsed when its turn comes, and the
  loop returns at the first subject the validator accepts.
\<close>

fun hasValidSubject_loop :: "(pkix_Name \<Rightarrow> bool) \<Rightarrow> string list \<Rightarrow> panic + bool" where
  "hasValidSubject_loop subjectValidator [] = Inr False"
| "hasValidSubject_loop subjectValidator (s # subjects) =
     (case parseSubject s of
        Inl p \<Rightarrow> Inl p
      | Inr parsedSubject \<Rightarrow>
          if subjectValidator parsedSubject then Inr True
          else hasValidSubject_loop subjectValidator subjects)"

definition hasValidSubject ::
  "string list \<Rightarrow> string list \<Rightarrow> app_name \<Rightarrow> string \<Rightarrow> string \<Rightarrow> panic + bool" where
  "hasValidSubject subjects applicationClientIDs appName group_str tenant =
     hasValidSubject_loop
       (newSubjectValidator applicationClientIDs appName group_str tenant) subjects"

subsection \<open>Requests and reverse proxies\<close>

text \<open>
  Of \<open>http.Request\<close> the fields the package reads or writes: the header (a map from
  the canonical header name to its values), the \<open>Host\<close> field, the scheme, host and
  path of the URL, and the route variables that \<open>mux.Vars\<close> reads from the request.
\<close>

type_synonym url_path = string

type_synonym host = string

record url =
  Scheme :: string
  URL_Host :: string
  Path :: string

record request =
  Header :: "string \<rightharpoonup> string list"
  Host :: string
  URL :: url
  Vars :: "string \<rightharpoonup> string"

text \<open>
  \<open>Header.Get\<close> gives the first value stored under the name, and the empty string when
  there is none; \<open>Header.Del\<close> removes the name. Both take the name in canonical form,
  which \<open>X-Forwarded-Client-Cert\<close> is.
\<close>

definition Header_Get :: "(string \<rightharpoonup> string list) \<Rightarrow> string \<Rightarrow> string" where
  "Header_Get h key = (case h key of None \<Rightarrow> [] | Some [] \<Rightarrow> [] | Some (v # vs) \<Rightarrow> v)"

definition Header_Del :: "(string \<rightharpoonup> string list) \<Rightarrow> string \<Rightarrow> (string \<rightharpoonup> string list)" where
  "Header_Del h key = h(key := None)"

type_synonym requestOption = "request \<Rightarrow> request"

definition withRewriteBaseURL :: "string \<Rightarrow> requestOption" where
  "withRewriteBaseURL path = (\<lambda>req. req\<lparr>URL := (URL req)\<lparr>Path := path\<rparr>\<rparr>)"

definition withEmptyRequestHost :: requestOption where
  "withEmptyRequestHost req = req\<lparr>Host := []\<rparr>"

definition withHTTPScheme :: requestOption where
  "withHTTPScheme req = req\<lparr>URL := (URL req)\<lparr>Scheme := ''http''\<rparr>\<rparr>"

definition withEmptyXFwdClientCert :: requestOption where
  "withEmptyXFwdClientCert req =
     req\<lparr>Header := Header_Del (Header req) ''X-Forwarded-Client-Cert''\<rparr>"

text \<open>
  A reverse proxy is its director, the function that rewrites the request before it is
  sent: the host of the URL is set to the destination, then the options run in order.
\<close>

record ReverseProxy =
  Director :: "request \<Rightarrow> request"

fun applyOptions :: "requestOption list \<Rightarrow> request \<Rightarrow> request" where
  "applyOptions [] req = req"
| "applyOptions (opt # reqOpts) req = applyOptions reqOpts (opt req)"

definition createReverseProxy :: "string \<Rightarrow> requestOption list \<Rightarrow> ReverseProxy" where
  "createReverseProxy destinationHost reqOpts =
     \<lparr> Director = (\<lambda>req.
         applyOptions reqOpts (req\<lparr>URL := (URL req)\<lparr>URL_Host := destinationHost\<rparr>\<rparr>)) \<rparr>"

subsection \<open>The handler\<close>

text \<open>
  The application resource as far as the handler reads it:
  \<open>Spec.CompassMetadata\<close> may be nil, and holds \<open>Authentication.ClientIds\<close> otherwise.
\<close>

record CompassMetadata =
  Authentication_ClientIds :: "string list"

record Application =
  Spec_CompassMetadata :: "CompassMetadata option"

text \<open>
  \<open>applicationGetter\<close> is the \<open>Get\<close> of the \<open>ApplicationGetter\<close> interface: it fails
  with an error, given by its text, or returns the application. The cache of the Go
  structure is shared state and is passed separately, in the \<open>world\<close> below.
\<close>

record proxyHandler =
  group_str :: string
  tenant :: string
  eventServicePathPrefixV1 :: string
  eventServicePathPrefixV2 :: string
  eventServiceHost :: string
  eventMeshPathPrefix :: string
  eventMeshHost :: string
  isBEBEnabled :: bool
  appRegistryPathPrefix :: string
  appRegistryHost :: string
  eventsProxy :: ReverseProxy
  eventMeshProxy :: ReverseProxy
  appRegistryProxy :: ReverseProxy
  applicationGetter :: "string \<Rightarrow> string + Application"

definition NewProxyHandler ::
  "string \<Rightarrow> string \<Rightarrow> url_path \<Rightarrow> url_path \<Rightarrow> host \<Rightarrow> url_path \<Rightarrow> host \<Rightarrow> url_path
     \<Rightarrow> url_path \<Rightarrow> host \<Rightarrow> (string \<Rightarrow> string + Application) \<Rightarrow> proxyHandler" where
  "NewProxyHandler grp ten prefixV1 prefixV2 serviceHost meshPrefix meshHost
      eventMeshDestinationPath registryPrefix registryHost getter =
     (let enabled = (if eventMeshDestinationPath = BEBEnabledPublishEndpoint then True else False) in
      \<lparr> group_str = grp,
        tenant = ten,
        eventServicePathPrefixV1 = prefixV1,
        eventServicePathPrefixV2 = prefixV2,
        eventServiceHost = serviceHost,
        eventMeshPathPrefix = meshPrefix,
        eventMeshHost = meshHost,
        isBEBEnabled = enabled,
        appRegistryPathPrefix = registryPrefix,
        appRegistryHost = registryHost,
        eventsProxy = createReverseProxy serviceHost
          [withEmptyRequestHost, withEmptyXFwdClientCert, withHTTPScheme],
        eventMeshProxy = createReverseProxy meshHost
          [withRewriteBaseURL eventMeshDestinationPath, withEmptyRequestHost,
           withEmptyXFwdClientCert, withHTTPScheme],
        appRegistryProxy = createReverseProxy registryHost
          [withEmptyRequestHost, withHTTPScheme],
        applicationGetter = getter \<rparr>)"

text \<open>
  What the handler shares with the rest of the process: the entries of the cache, each
  a list of client identifiers and the duration it was stored with, and the calls made
  so far to the cache, to the application getter and to a reverse proxy, oldest first.
  The expiry of an entry depends on the clock and is not modelled: an entry is found as
  long as it is in the map. \<open>cache.DefaultExpiration\<close> is the duration 0 of go-cache.
\<close>

type_synonym duration = int

definition DefaultExpiration :: duration where
  "DefaultExpiration = 0"

datatype call =
    CacheGet string
  | CacheSet string "string list" duration
  | ApplicationGet string
  | ServeHTTP request

record world =
  cache_items :: "string \<rightharpoonup> (string list \<times> duration)"
  calls :: "call list"

definition cache_Get :: "world \<Rightarrow> string \<Rightarrow> (string list option \<times> bool) \<times> world" where
  "cache_Get w k =
     (let w' = w\<lparr>calls := calls w @ [CacheGet k]\<rparr> in
      case cache_items w k of
        None \<Rightarrow> ((None, False), w')
      | Some (x, d) \<Rightarrow> ((Some x, True), w'))"

definition cache_Set :: "world \<Rightarrow> string \<Rightarrow> string list \<Rightarrow> duration \<Rightarrow> world" where
  "cache_Set w k x d =
     w\<lparr>cache_items := (cache_items w)(k \<mapsto> (x, d)), calls := calls w @ [CacheSet k x d]\<rparr>"

definition getClientIDsFromCache ::
  "proxyHandler \<Rightarrow> world \<Rightarrow> string \<Rightarrow> (string list \<times> bool) \<times> world" where
  "getClientIDsFromCache ph w applicationName =
     (case cache_Get w applicationName of
        ((clientIDs, found), w') \<Rightarrow>
          if \<not> found then (([], found), w')
          else ((case clientIDs of None \<Rightarrow> [] | Some ids \<Rightarrow> ids, found), w'))"

definition getClientIDsFromResource ::
  "proxyHandler \<Rightarrow> world \<Rightarrow> string \<Rightarrow> (string list \<times> AppError option) \<times> world" where
  "getClientIDsFromResource ph w applicationName =
     (let w' = w\<lparr>calls := calls w @ [ApplicationGet applicationName]\<rparr> in
      case applicationGetter ph applicationName of
        Inl err \<Rightarrow>
          (([], Some (AppError Internal
              (''failed to get '' @ applicationName @ '' application: '' @ err))), w')
      | Inr application \<Rightarrow>
          (case Spec_CompassMetadata application of
             None \<Rightarrow> (([], None), w')
           | Some metadata \<Rightarrow> ((Authentication_ClientIds metadata, None), w')))"

definition getCompassMetadataClientIDs ::
  "proxyHandler \<Rightarrow> world \<Rightarrow> string \<Rightarrow> (string list \<times> AppError option) \<times> world" where
  "getCompassMetadataClientIDs ph w applicationName =
     (case getClientIDsFromCache ph w applicationName of
        ((cachedIDs, found), w1) \<Rightarrow>
          if \<not> found then
            (case getClientIDsFromResource ph w1 applicationName of
               ((applicationClientIDs, Some err), w2) \<Rightarrow> (([], Some err), w2)
             | ((applicationClientIDs, None), w2) \<Rightarrow>
                 ((applicationClientIDs, None),
                  cache_Set w2 applicationName applicationClientIDs DefaultExpiration))
          else ((cachedIDs, None), w1))"

definition mapRequestToProxy :: "proxyHandler \<Rightarrow> string \<Rightarrow> AppError + ReverseProxy" where
  "mapRequestToProxy ph path =
     (if prefix (eventServicePathPrefixV1 ph) path then Inr (eventsProxy ph)
      else if prefix (eventServicePathPrefixV2 ph) path then
        (if isBEBEnabled ph then Inr (eventMeshProxy ph) else Inr (eventsProxy ph))
      else if prefix (eventMeshPathPrefix ph) path then Inr (eventMeshProxy ph)
      else if prefix (appRegistryPathPrefix ph) path then Inr (appRegistryProxy ph)
      else Inl (AppError NotFound
        ''Could not determine destination host. Requested resource not found''))"

text \<open>
  What the handler does with a request: it answers with an error, or it hands the
  request to a reverse proxy, which sends on what its director makes of it, or it
  panics. \<open>ReverseProxy_ServeHTTP\<close> records the request as it is sent.
\<close>

datatype outcome =
    RespondWithError AppError
  | Forwarded request
  | Panicked panic

definition ReverseProxy_ServeHTTP :: "ReverseProxy \<Rightarrow> world \<Rightarrow> request \<Rightarrow> outcome \<times> world" where
  "ReverseProxy_ServeHTTP reverseProxy w r =
     (let out = Director reverseProxy r in
      (Forwarded out, w\<lparr>calls := calls w @ [ServeHTTP out]\<rparr>))"

definition ProxyAppConnectorRequests ::
  "proxyHandler \<Rightarrow> world \<Rightarrow> request \<Rightarrow> outcome \<times> world" where
  "ProxyAppConnectorRequests ph w r =
     (let certInfoData = Header_Get (Header r) CertificateInfoHeader in
      if certInfoData = [] then
        (RespondWithError (AppError Internal (CertificateInfoHeader @ '' header not found'')), w)
      else
        let applicationName = map_get (Vars r) ''application'' in
        if applicationName = [] then
          (RespondWithError (AppError BadRequest ''Application name not specified''), w)
        else
          (case getCompassMetadataClientIDs ph w applicationName of
             ((applicationClientIDs, Some err), w') \<Rightarrow>
               (RespondWithError (AppError Internal
                  (''Failed to get Application ClientIds: '' @ Error_msg err)), w')
           | ((applicationClientIDs, None), w') \<Rightarrow>
               (case hasValidSubject (extractSubjects certInfoData) applicationClientIDs
                       applicationName (group_str ph) (tenant ph) of
                  Inl p \<Rightarrow> (Panicked p, w')
                | Inr False \<Rightarrow>
                    (RespondWithError (AppError Forbidden ''No valid subject found''), w')
                | Inr True \<Rightarrow>
                    (case mapRequestToProxy ph (Path (URL r)) of
                       Inl err \<Rightarrow> (RespondWithError err, w')
                     | Inr reverseProxy \<Rightarrow> ReverseProxy_ServeHTTP reverseProxy w' r))))"

subsection \<open>The policy table and the rule list of the specification\<close>

text \<open>
  The authorization policy as the specification words it: the two booleans choose one
  of four predicates on a single subject. A parsed subject holds one organization and
  one organizational unit, so a field that equals a value is the list of that value.
\<close>

definition subjectPolicy ::
  "bool \<Rightarrow> bool \<Rightarrow> string list \<Rightarrow> app_name \<Rightarrow> string \<Rightarrow> string \<Rightarrow> pkix_Name \<Rightarrow> bool" where
  "subjectPolicy hasClientIDs hasScoping identity applicationName grp ten subject =
     (case (hasClientIDs, hasScoping) of
        (False, False) \<Rightarrow> CommonName subject = applicationName
      | (False, True) \<Rightarrow>
          CommonName subject = applicationName
          \<and> Organization subject = [ten] \<and> OrganizationalUnit subject = [grp]
      | (True, False) \<Rightarrow> CommonName subject \<in> set identity
      | (True, True) \<Rightarrow>
          CommonName subject \<in> set identity
          \<and> Organization subject = [ten] \<and> OrganizationalUnit subject = [grp])"

text \<open>
  The routing as the specification words it: an ordered list of rules, a path prefix
  and a destination each, of which the first whose prefix starts the path decides.
\<close>

definition routeRules :: "proxyHandler \<Rightarrow> (string \<times> ReverseProxy) list" where
  "routeRules ph =
     [(eventServicePathPrefixV1 ph, eventsProxy ph),
      (eventServicePathPrefixV2 ph,
         if isBEBEnabled ph then eventMeshProxy ph else eventsProxy ph),
      (eventMeshPathPrefix ph, eventMeshProxy ph),
      (appRegistryPathPrefix ph, appRegistryProxy ph)]"

fun firstMatch :: "(string \<times> 'a) list \<Rightarrow> string \<Rightarrow> 'a option" where
  "firstMatch [] path = None"
| "firstMatch ((p, d) # rules) path =
     (if prefix p path then Some d else firstMatch rules path)"

subsection \<open>A concrete deployment\<close>

text \<open>
  A handler, a request and a state of the world on which the theorems below are
  evaluated: application \<open>app2\<close> has client identifiers, \<open>app1\<close> has no metadata, and
  any other application cannot be fetched.
\<close>

definition example_getter :: "string \<Rightarrow> string + Application" where
  "example_getter name =
     (if name = ''app1'' then Inr \<lparr> Spec_CompassMetadata = None \<rparr>
      else if name = ''app2'' then
        Inr \<lparr> Spec_CompassMetadata =
                Some \<lparr> Authentication_ClientIds = [''id1'', ''id2''] \<rparr> \<rparr>
      else Inl ''not found'')"

definition example_handler :: "string \<Rightarrow> proxyHandler" where
  "example_handler eventMeshDestinationPath =
     NewProxyHandler [] [] ''/app1/v1/events'' ''/app1/v2/events'' ''events:8081''
       ''/app1/events'' ''mesh:8080'' eventMeshDestinationPath
       ''/app1/v1/metadata'' ''registry:8082'' example_getter"

definition example_cert :: string where
  "example_cert = ''Subject='' @ [dquote] @ ''CN=app1'' @ [dquote]"

definition example_header :: "string \<rightharpoonup> string list" where
  "example_header = [''X-Forwarded-Client-Cert'' \<mapsto> [example_cert]]"

definition example_request :: "string \<Rightarrow> request" where
  "example_request path =
     \<lparr> Header = example_header,
       Host = ''gateway.example.com'',
       URL = \<lparr> Scheme = ''https'', URL_Host = ''gateway.example.com'', Path = path \<rparr>,
       Vars = [''application'' \<mapsto> ''app1''] \<rparr>"

definition example_world :: world where
  "example_world = \<lparr> cache_items = Map.empty, calls = [] \<rparr>"

text \<open>A header whose only subject has a segment without the separator \<open>=\<close>.\<close>

definition malformed_header :: string where
  "malformed_header = ''Subject='' @ [dquote] @ ''CN'' @ [dquote]"

definition malformed_request :: request where
  "malformed_request =
     (example_request ''/app1/v1/events'')
       \<lparr>Header := [''X-Forwarded-Client-Cert'' \<mapsto> [malformed_header]]\<rparr>"

text \<open>A header with a chain of two subjects, the second one empty.\<close>

definition chain_header :: string where
  "chain_header =
     ''Hash=abc;Subject='' @ [dquote] @ ''CN=app1'' @ [dquote]
       @ '';URI=,Subject='' @ [dquote, dquote]"

section \<open>Properties\<close>

subsection \<open>What each director does to a request\<close>

lemma Director_eventsProxy:
  "Director (eventsProxy (NewProxyHandler grp ten p1 p2 sh mp mh dp rp rh g)) r =
     r\<lparr>Header := Header_Del (Header r) ''X-Forwarded-Client-Cert'', Host := [],
       URL := (URL r)\<lparr>URL_Host := sh, Scheme := ''http''\<rparr>\<rparr>"
  by (simp add: NewProxyHandler_def createReverseProxy_def withEmptyRequestHost_def
      withEmptyXFwdClientCert_def withHTTPScheme_def)

lemma Director_eventMeshProxy:
  "Director (eventMeshProxy (NewProxyHandler grp ten p1 p2 sh mp mh dp rp rh g)) r =
     r\<lparr>Header := Header_Del (Header r) ''X-Forwarded-Client-Cert'', Host := [],
       URL := (URL r)\<lparr>URL_Host := mh, Path := dp, Scheme := ''http''\<rparr>\<rparr>"
  by (simp add: NewProxyHandler_def createReverseProxy_def withEmptyRequestHost_def
      withEmptyXFwdClientCert_def withHTTPScheme_def withRewriteBaseURL_def)

lemma Director_appRegistryProxy:
  "Director (appRegistryProxy (NewProxyHandler grp ten p1 p2 sh mp mh dp rp rh g)) r =
     r\<lparr>Host := [], URL := (URL r)\<lparr>URL_Host := rh, Scheme := ''http''\<rparr>\<rparr>"
  by (simp add: NewProxyHandler_def createReverseProxy_def withEmptyRequestHost_def
      withHTTPScheme_def)

text \<open>
  Claim C1 asks that every destination receives the request without the
  \<open>X-Forwarded-Client-Cert\<close> header. \<open>NewProxyHandler\<close> gives the option
  \<open>withEmptyXFwdClientCert\<close> to the proxies of the event service and of the event
  mesh and leaves it out for the proxy of the application registry. For one and the
  same request the directors of the two event proxies delete the header, and the
  director of the registry proxy keeps it; a request with a valid subject and a path
  under the registry prefix leaves the handler with the header it came with.
\<close>

theorem appRegistryProxy_forwards_cert_header:
  "Header (Director (appRegistryProxy (example_handler ''/publish''))
       (example_request ''/app1/v1/metadata/services''))
     ''X-Forwarded-Client-Cert'' = Some [''Subject='' @ [dquote] @ ''CN=app1'' @ [dquote]]
   \<and> Header (Director (eventsProxy (example_handler ''/publish''))
       (example_request ''/app1/v1/metadata/services''))
     ''X-Forwarded-Client-Cert'' = None
   \<and> Header (Director (eventMeshProxy (example_handler ''/publish''))
       (example_request ''/app1/v1/metadata/services''))
     ''X-Forwarded-Client-Cert'' = None
   \<and> (case fst (ProxyAppConnectorRequests (example_handler ''/publish'') example_world
          (example_request ''/app1/v1/metadata/services'')) of
        Forwarded out \<Rightarrow>
          URL_Host (URL out) = ''registry:8082''
          \<and> Header out ''X-Forwarded-Client-Cert''
              = Some [''Subject='' @ [dquote] @ ''CN=app1'' @ [dquote]]
      | RespondWithError err \<Rightarrow> False
      | Panicked p \<Rightarrow> False)"
proof -
  let ?ph = "example_handler ''/publish''"
  let ?r = "example_request ''/app1/v1/metadata/services''"
  have d1: "Header (Director (appRegistryProxy ?ph) ?r) ''X-Forwarded-Client-Cert''
      = Some [''Subject='' @ [dquote] @ ''CN=app1'' @ [dquote]]"
    by (simp add: example_handler_def Director_appRegistryProxy example_request_def
        example_header_def example_cert_def)
  have d2: "Header (Director (eventsProxy ?ph) ?r) ''X-Forwarded-Client-Cert'' = None"
    by (simp add: example_handler_def Director_eventsProxy Header_Del_def)
  have d3: "Header (Director (eventMeshProxy ?ph) ?r) ''X-Forwarded-Client-Cert'' = None"
    by (simp add: example_handler_def Director_eventMeshProxy Header_Del_def)
  have dh: "URL_Host (URL (Director (appRegistryProxy ?ph) ?r)) = ''registry:8082''"
    by (simp add: example_handler_def Director_appRegistryProxy)
  have h: "Header_Get (Header ?r) CertificateInfoHeader = example_cert"
    by (simp add: example_request_def example_header_def CertificateInfoHeader_def
        Header_Get_def)
  have n: "example_cert \<noteq> []"
    by (simp add: example_cert_def)
  have v: "map_get (Vars ?r) ''application'' = ''app1''"
    by (simp add: example_request_def map_get_def)
  have g: "getCompassMetadataClientIDs ?ph example_world ''app1'' =
    (([], None),
     cache_Set (example_world\<lparr>calls := [CacheGet ''app1'', ApplicationGet ''app1'']\<rparr>)
       ''app1'' [] DefaultExpiration)"
    by (simp add: getCompassMetadataClientIDs_def getClientIDsFromCache_def cache_Get_def
        getClientIDsFromResource_def example_world_def example_handler_def
        NewProxyHandler_def example_getter_def)
  have x: "extractSubjects example_cert = [''CN=app1'']"
    by (simp add: example_cert_def extractSubjects_def matchHere_def
        subjectRegex_literal_def inGroup_def dquote_def linefeed_def get_def)
  have gt: "group_str ?ph = [] \<and> tenant ?ph = []"
    by (simp add: example_handler_def NewProxyHandler_def)
  have p: "hasValidSubject [''CN=app1''] [] ''app1'' [] [] = Inr True"
    by (simp add: hasValidSubject_def parseSubject_def extractSubject_def index_def
        map_get_def newSubjectValidator_def validateCommonNameWithAppName_def)
  have m: "mapRequestToProxy ?ph (Path (URL ?r)) = Inr (appRegistryProxy ?ph)"
    by (simp add: mapRequestToProxy_def example_request_def example_handler_def
        NewProxyHandler_def)
  have e: "fst (ProxyAppConnectorRequests ?ph example_world ?r)
      = Forwarded (Director (appRegistryProxy ?ph) ?r)"
    by (simp add: ProxyAppConnectorRequests_def Let_def h n v g x p gt m
        ReverseProxy_ServeHTTP_def)
  from d1 d2 d3 dh e show ?thesis
    by simp
qed

text \<open>
  Claim C2 asks that parsing a subject never fails. \<open>extractSubject\<close> reads
  \<open>parts[1]\<close> of every segment without looking at the number of parts, so a segment
  without \<open>=\<close> is an index out of range: the subject \<open>CN\<close> makes \<open>extractSubject\<close>
  and \<open>parseSubject\<close> panic, and a request whose header carries that subject makes
  the handler panic, after the lookup of the client identifiers.
\<close>

theorem extractSubject_panics_without_separator:
  "extractSubject ''CN'' = Inl IndexOutOfRange
   \<and> extractSubject ''CN=app1,OU'' = Inl IndexOutOfRange
   \<and> parseSubject ''CN'' = Inl IndexOutOfRange
   \<and> fst (ProxyAppConnectorRequests (example_handler ''/publish'') example_world
        malformed_request) = Panicked IndexOutOfRange"
proof -
  have e1: "extractSubject ''CN'' = Inl IndexOutOfRange"
    by (simp add: extractSubject_def index_def)
  have e2: "extractSubject ''CN=app1,OU'' = Inl IndexOutOfRange"
    by (simp add: extractSubject_def index_def)
  have e3: "parseSubject ''CN'' = Inl IndexOutOfRange"
    by (simp add: parseSubject_def e1)
  have h: "Header_Get (Header malformed_request) CertificateInfoHeader = malformed_header"
    by (simp add: malformed_request_def CertificateInfoHeader_def Header_Get_def)
  have n: "malformed_header \<noteq> []"
    by (simp add: malformed_header_def)
  have v: "map_get (Vars malformed_request) ''application'' = ''app1''"
    by (simp add: malformed_request_def example_request_def map_get_def)
  have g: "getCompassMetadataClientIDs (example_handler ''/publish'') example_world ''app1'' =
    (([], None),
     cache_Set (example_world\<lparr>calls := [CacheGet ''app1'', ApplicationGet ''app1'']\<rparr>)
       ''app1'' [] DefaultExpiration)"
    by (simp add: getCompassMetadataClientIDs_def getClientIDsFromCache_def cache_Get_def
        getClientIDsFromResource_def example_world_def example_handler_def
        NewProxyHandler_def example_getter_def)
  have x: "extractSubjects malformed_header = [''CN'']"
    by (simp add: malformed_header_def extractSubjects_def matchHere_def
        subjectRegex_literal_def inGroup_def dquote_def linefeed_def get_def)
  have p: "hasValidSubject [''CN''] [] ''app1'' [] [] = Inl IndexOutOfRange"
    by (simp add: hasValidSubject_def e3)
  have gt: "group_str (example_handler ''/publish'') = []
      \<and> tenant (example_handler ''/publish'') = []"
    by (simp add: example_handler_def NewProxyHandler_def)
  have e4: "fst (ProxyAppConnectorRequests (example_handler ''/publish'') example_world
        malformed_request) = Panicked IndexOutOfRange"
    by (simp add: ProxyAppConnectorRequests_def Let_def h n v g x p gt)
  from e1 e2 e3 e4 show ?thesis
    by simp
qed

subsection \<open>Authorization\<close>

lemma validateCommonNameWithClientIDs_iff:
  "validateCommonNameWithClientIDs ids subject = (CommonName subject \<in> set ids)"
  by (induction ids) auto

lemma validateSubjectField_iff:
  "validateSubjectField field expected = (field = [expected])"
  by (cases field) (auto simp: validateSubjectField_def)

lemma newSubjectValidator_policy:
  "newSubjectValidator ids app grp ten subject =
     subjectPolicy (length ids > 0) (grp \<noteq> [] \<and> ten \<noteq> []) ids app grp ten subject"
  by (auto simp: newSubjectValidator_def subjectPolicy_def validateCommonNameWithAppName_def
      validateCommonNameWithClientIDs_iff validateSubjectField_iff)

lemma hasValidSubject_loop_parsed:
  "map parseSubject subjects = map Inr parsed \<Longrightarrow>
     hasValidSubject_loop v subjects = Inr (list_ex v parsed)"
proof (induction subjects arbitrary: parsed)
  case Nil
  then show ?case by simp
next
  case (Cons s subjects)
  then obtain n ns where "parsed = n # ns" "parseSubject s = Inr n"
    "map parseSubject subjects = map Inr ns"
    by (cases parsed) auto
  with Cons.IH [of ns] show ?case by simp
qed

text \<open>
  Claim C3: when the subjects parse to the list \<open>parsed\<close>, \<open>hasValidSubject\<close> returns
  whether some parsed subject satisfies the one predicate of the policy table that the
  two booleans \<open>len(identity) > 0\<close> and \<open>group != "" && tenant != ""\<close> select; with no
  subject at all the answer is false.
\<close>

theorem hasValidSubject_policy:
  "(map parseSubject subjects = map Inr parsed \<longrightarrow>
      hasValidSubject subjects identity applicationName grp ten =
        Inr (list_ex (subjectPolicy (length identity > 0) (grp \<noteq> [] \<and> ten \<noteq> [])
               identity applicationName grp ten) parsed))
   \<and> hasValidSubject [] identity applicationName grp ten = Inr False"
proof -
  have "newSubjectValidator identity applicationName grp ten =
     subjectPolicy (length identity > 0) (grp \<noteq> [] \<and> ten \<noteq> [])
       identity applicationName grp ten"
    by (rule ext) (rule newSubjectValidator_policy)
  then show ?thesis
    by (simp add: hasValidSubject_def hasValidSubject_loop_parsed)
qed

theorem hasValidSubject_policy_witness:
  "map parseSubject [''CN=wrong'', ''CN=app1,O=t1,OU=g1''] = map Inr
     [\<lparr>CommonName = ''wrong'', Country = [[]], Organization = [[]],
        OrganizationalUnit = [[]], Locality = [[]], Province = [[]]\<rparr>,
      \<lparr>CommonName = ''app1'', Country = [[]], Organization = [''t1''],
        OrganizationalUnit = [''g1''], Locality = [[]], Province = [[]]\<rparr>]
   \<and> hasValidSubject [''CN=wrong'', ''CN=app1,O=t1,OU=g1''] [] ''app1'' ''g1'' ''t1'' = Inr True
   \<and> hasValidSubject [''CN=wrong'', ''CN=app1,O=t1,OU=g1''] [] ''app1'' ''g2'' ''t1'' = Inr False
   \<and> hasValidSubject [''CN=wrong'', ''CN=app1,O=t1,OU=g1''] [''id1'', ''wrong''] ''app1'' [] []
       = Inr True"
proof -
  let ?raw = "[''CN=wrong'', ''CN=app1,O=t1,OU=g1'']"
  let ?parsed = "[\<lparr>CommonName = ''wrong'', Country = [[]], Organization = [[]],
        OrganizationalUnit = [[]], Locality = [[]], Province = [[]]\<rparr>,
      \<lparr>CommonName = ''app1'', Country = [[]], Organization = [''t1''],
        OrganizationalUnit = [''g1''], Locality = [[]], Province = [[]]\<rparr>]"
  have h: "map parseSubject ?raw = map Inr ?parsed"
    by (simp add: parseSubject_def extractSubject_def index_def map_get_def)
  from h hasValidSubject_policy [of ?raw ?parsed "[]" "''app1''" "''g1''" "''t1''"]
    hasValidSubject_policy [of ?raw ?parsed "[]" "''app1''" "''g2''" "''t1''"]
    hasValidSubject_policy [of ?raw ?parsed "[''id1'', ''wrong'']" "''app1''" "[]" "[]"]
  show ?thesis
    by (simp add: subjectPolicy_def)
qed

subsection \<open>Routing\<close>

text \<open>
  Claim C4: \<open>mapRequestToProxy\<close> is the first match in the ordered rule list: the
  prefix of the v1 events to the event service proxy, the prefix of the v2 events to
  the event mesh proxy when the mesh flag is set and to the event service proxy
  otherwise, the event mesh prefix to the event mesh proxy, the application registry
  prefix to the application registry proxy; with no match the result is a \<open>NotFound\<close>
  error and no proxy.
\<close>

theorem mapRequestToProxy_firstMatch:
  "mapRequestToProxy ph path =
     (case firstMatch (routeRules ph) path of
        Some reverseProxy \<Rightarrow> Inr reverseProxy
      | None \<Rightarrow> Inl (AppError NotFound
          ''Could not determine destination host. Requested resource not found''))"
  by (simp add: mapRequestToProxy_def routeRules_def)

theorem mapRequestToProxy_firstMatch_witness:
  "mapRequestToProxy (example_handler ''/publish'') ''/app1/v1/events/x''
     = Inr (eventsProxy (example_handler ''/publish''))
   \<and> mapRequestToProxy (example_handler ''/publish'') ''/app1/v2/events''
     = Inr (eventMeshProxy (example_handler ''/publish''))
   \<and> mapRequestToProxy (example_handler ''/'') ''/app1/v2/events''
     = Inr (eventsProxy (example_handler ''/''))
   \<and> mapRequestToProxy (example_handler ''/'') ''/app1/events''
     = Inr (eventMeshProxy (example_handler ''/''))
   \<and> mapRequestToProxy (example_handler ''/'') ''/app1/v1/metadata/services''
     = Inr (appRegistryProxy (example_handler ''/''))
   \<and> mapRequestToProxy (example_handler ''/'') ''/app1/v1/health''
     = Inl (AppError NotFound
         ''Could not determine destination host. Requested resource not found'')"
  using mapRequestToProxy_firstMatch [of "example_handler ''/publish''" "''/app1/v1/events/x''"]
    mapRequestToProxy_firstMatch [of "example_handler ''/publish''" "''/app1/v2/events''"]
    mapRequestToProxy_firstMatch [of "example_handler ''/''" "''/app1/v2/events''"]
    mapRequestToProxy_firstMatch [of "example_handler ''/''" "''/app1/events''"]
    mapRequestToProxy_firstMatch [of "example_handler ''/''" "''/app1/v1/metadata/services''"]
    mapRequestToProxy_firstMatch [of "example_handler ''/''" "''/app1/v1/health''"]
  by (simp add: routeRules_def example_handler_def NewProxyHandler_def
      BEBEnabledPublishEndpoint_def)

subsection \<open>Resolving the client identifiers\<close>

text \<open>
  Claim C5 as stated fails in the wording of the error: for the application \<open>app3\<close>,
  which is not in the cache and which the getter cannot fetch, the message of the
  error is \<open>failed to get app3 application: not found\<close>, and the context
  \<open>failed to resolve identity for application app3\<close> occurs nowhere in it.
\<close>

theorem getCompassMetadataClientIDs_error_message:
  "getCompassMetadataClientIDs (example_handler ''/publish'') example_world ''app3'' =
     (([], Some (AppError Internal ''failed to get app3 application: not found'')),
      example_world\<lparr>calls := [CacheGet ''app3'', ApplicationGet ''app3'']\<rparr>)
   \<and> \<not> sublist ''failed to resolve identity for application app3''
         ''failed to get app3 application: not found''"
  by (simp add: getCompassMetadataClientIDs_def getClientIDsFromCache_def cache_Get_def
      getClientIDsFromResource_def example_world_def example_handler_def NewProxyHandler_def
      example_getter_def sublist_code)

text \<open>
  Claim C5, amended: on a cache miss, if the application getter fails with the cause
  \<open>cause\<close>, the resolver returns the empty list and an \<open>Internal\<close> error with the
  message \<open>failed to get <name> application: <cause>\<close>; the calls made are the lookup
  in the cache and the call of the getter, nothing is written to the cache, and the
  entries of the cache are as before.
\<close>

theorem getCompassMetadataClientIDs_failure:
  assumes "cache_items w applicationName = None"
    and "applicationGetter ph applicationName = Inl cause"
  shows "getCompassMetadataClientIDs ph w applicationName =
      (([], Some (AppError Internal
          (''failed to get '' @ applicationName @ '' application: '' @ cause))),
       w\<lparr>calls := calls w @ [CacheGet applicationName, ApplicationGet applicationName]\<rparr>)
    \<and> cache_items (snd (getCompassMetadataClientIDs ph w applicationName)) = cache_items w"
  using assms
  by (simp add: getCompassMetadataClientIDs_def getClientIDsFromCache_def cache_Get_def
      getClientIDsFromResource_def)

theorem getCompassMetadataClientIDs_failure_witness:
  "cache_items example_world ''app3'' = None
   \<and> applicationGetter (example_handler ''/publish'') ''app3'' = Inl ''not found''
   \<and> fst (getCompassMetadataClientIDs (example_handler ''/publish'') example_world ''app3'')
       = ([], Some (AppError Internal ''failed to get app3 application: not found''))
   \<and> cache_items (snd (getCompassMetadataClientIDs (example_handler ''/publish'')
        example_world ''app3'')) = Map.empty"
proof -
  have m: "cache_items example_world ''app3'' = None"
    by (simp add: example_world_def)
  have f: "applicationGetter (example_handler ''/publish'') ''app3'' = Inl ''not found''"
    by (simp add: example_handler_def NewProxyHandler_def example_getter_def)
  from getCompassMetadataClientIDs_failure [OF m f] m f show ?thesis
    by (simp add: example_world_def)
qed

text \<open>
  Claim C6: on a cache miss, if the getter returns an application without metadata,
  the resolver returns the empty list and no error, and stores the empty list under
  the name of the application with the default expiration; an application with
  metadata has its client identifiers returned and stored in the same way.
\<close>

theorem getCompassMetadataClientIDs_success:
  "(cache_items w applicationName = None
      \<and> applicationGetter ph applicationName = Inr application
      \<and> Spec_CompassMetadata application = None \<longrightarrow>
      getCompassMetadataClientIDs ph w applicationName =
        (([], None),
         w\<lparr>cache_items := (cache_items w)(applicationName \<mapsto> ([], DefaultExpiration)),
           calls := calls w @ [CacheGet applicationName, ApplicationGet applicationName,
             CacheSet applicationName [] DefaultExpiration]\<rparr>))
   \<and> (cache_items w applicationName = None
      \<and> applicationGetter ph applicationName = Inr application
      \<and> Spec_CompassMetadata application = Some metadata \<longrightarrow>
      getCompassMetadataClientIDs ph w applicationName =
        ((Authentication_ClientIds metadata, None),
         w\<lparr>cache_items := (cache_items w)(applicationName \<mapsto>
              (Authentication_ClientIds metadata, DefaultExpiration)),
           calls := calls w @ [CacheGet applicationName, ApplicationGet applicationName,
             CacheSet applicationName (Authentication_ClientIds metadata)
               DefaultExpiration]\<rparr>))"
  by (simp add: getCompassMetadataClientIDs_def getClientIDsFromCache_def cache_Get_def
      getClientIDsFromResource_def cache_Set_def)

theorem getCompassMetadataClientIDs_success_witness:
  "cache_items example_world ''app1'' = None
   \<and> applicationGetter (example_handler ''/publish'') ''app1''
       = Inr \<lparr>Spec_CompassMetadata = None\<rparr>
   \<and> fst (getCompassMetadataClientIDs (example_handler ''/publish'') example_world ''app1'')
       = ([], None)
   \<and> cache_items (snd (getCompassMetadataClientIDs (example_handler ''/publish'')
        example_world ''app1'')) ''app1'' = Some ([], DefaultExpiration)
   \<and> applicationGetter (example_handler ''/publish'') ''app2''
       = Inr \<lparr>Spec_CompassMetadata = Some \<lparr>Authentication_ClientIds = [''id1'', ''id2'']\<rparr>\<rparr>
   \<and> fst (getCompassMetadataClientIDs (example_handler ''/publish'') example_world ''app2'')
       = ([''id1'', ''id2''], None)
   \<and> cache_items (snd (getCompassMetadataClientIDs (example_handler ''/publish'')
        example_world ''app2'')) ''app2'' = Some ([''id1'', ''id2''], DefaultExpiration)"
proof -
  have m: "cache_items example_world ''app1'' = None"
      "cache_items example_world ''app2'' = None"
    by (simp_all add: example_world_def)
  have g1: "applicationGetter (example_handler ''/publish'') ''app1''
       = Inr \<lparr>Spec_CompassMetadata = None\<rparr>"
    by (simp add: example_handler_def NewProxyHandler_def example_getter_def)
  have g2: "applicationGetter (example_handler ''/publish'') ''app2''
       = Inr \<lparr>Spec_CompassMetadata = Some \<lparr>Authentication_ClientIds = [''id1'', ''id2'']\<rparr>\<rparr>"
    by (simp add: example_handler_def NewProxyHandler_def example_getter_def)
  from m g1 g2
    getCompassMetadataClientIDs_success [of example_world "''app1''"
      "example_handler ''/publish''" "\<lparr>Spec_CompassMetadata = None\<rparr>"]
    getCompassMetadataClientIDs_success [of example_world "''app2''"
      "example_handler ''/publish''"
      "\<lparr>Spec_CompassMetadata = Some \<lparr>Authentication_ClientIds = [''id1'', ''id2'']\<rparr>\<rparr>"
      "\<lparr>Authentication_ClientIds = [''id1'', ''id2'']\<rparr>"]
  show ?thesis
    by simp
qed

subsection \<open>The first two checks of the handler\<close>

text \<open>
  Claim C7: a request whose \<open>X-Forwarded-Client-Cert\<close> header is absent or empty is
  answered with an \<open>Internal\<close> error; a request with the header whose route variable
  \<open>application\<close> is missing or empty is answered with a \<open>BadRequest\<close> error. In both
  cases the world is returned as it was: no call of the cache, of the application
  getter or of a proxy has been made.
\<close>

theorem ProxyAppConnectorRequests_early_failures:
  "(Header_Get (Header r) CertificateInfoHeader = [] \<longrightarrow>
      ProxyAppConnectorRequests ph w r =
        (RespondWithError (AppError Internal ''X-Forwarded-Client-Cert header not found''), w))
   \<and> (Header_Get (Header r) CertificateInfoHeader \<noteq> []
        \<and> map_get (Vars r) ''application'' = [] \<longrightarrow>
      ProxyAppConnectorRequests ph w r =
        (RespondWithError (AppError BadRequest ''Application name not specified''), w))"
  by (simp add: ProxyAppConnectorRequests_def CertificateInfoHeader_def Let_def)

theorem ProxyAppConnectorRequests_early_failures_witness:
  "ProxyAppConnectorRequests (example_handler ''/publish'') example_world
       ((example_request ''/app1/v1/events'')\<lparr>Header := Map.empty\<rparr>) =
     (RespondWithError (AppError Internal ''X-Forwarded-Client-Cert header not found''),
      example_world)
   \<and> ProxyAppConnectorRequests (example_handler ''/publish'') example_world
       ((example_request ''/app1/v1/events'')
          \<lparr>Header := [''X-Forwarded-Client-Cert'' \<mapsto> [[]]]\<rparr>) =
     (RespondWithError (AppError Internal ''X-Forwarded-Client-Cert header not found''),
      example_world)
   \<and> ProxyAppConnectorRequests (example_handler ''/publish'') example_world
       ((example_request ''/app1/v1/events'')\<lparr>Vars := Map.empty\<rparr>) =
     (RespondWithError (AppError BadRequest ''Application name not specified''),
      example_world)
   \<and> ProxyAppConnectorRequests (example_handler ''/publish'') example_world
       ((example_request ''/app1/v1/events'')\<lparr>Vars := [''application'' \<mapsto> []]\<rparr>) =
     (RespondWithError (AppError BadRequest ''Application name not specified''),
      example_world)"
  using ProxyAppConnectorRequests_early_failures
      [of "(example_request ''/app1/v1/events'')\<lparr>Header := Map.empty\<rparr>"
        "example_handler ''/publish''" example_world]
    ProxyAppConnectorRequests_early_failures
      [of "(example_request ''/app1/v1/events'')
          \<lparr>Header := [''X-Forwarded-Client-Cert'' \<mapsto> [[]]]\<rparr>"
        "example_handler ''/publish''" example_world]
    ProxyAppConnectorRequests_early_failures
      [of "(example_request ''/app1/v1/events'')\<lparr>Vars := Map.empty\<rparr>"
        "example_handler ''/publish''" example_world]
    ProxyAppConnectorRequests_early_failures
      [of "(example_request ''/app1/v1/events'')\<lparr>Vars := [''application'' \<mapsto> []]\<rparr>"
        "example_handler ''/publish''" example_world]
  by (simp add: Header_Get_def map_get_def CertificateInfoHeader_def example_request_def
      example_header_def example_cert_def)

subsection \<open>The path rewrite of the event mesh\<close>

text \<open>
  Claim C8: the proxy of the event mesh sends every request on with the configured
  destination path as the path of its URL, whatever the path of the request was; the
  proxies of the event service and of the application registry leave the path as it
  is.
\<close>

theorem eventMeshProxy_rewrites_path:
  "Path (URL (Director (eventMeshProxy
       (NewProxyHandler grp ten p1 p2 sh mp mh dp rp rh g)) r)) = dp
   \<and> Path (URL (Director (eventsProxy
       (NewProxyHandler grp ten p1 p2 sh mp mh dp rp rh g)) r)) = Path (URL r)
   \<and> Path (URL (Director (appRegistryProxy
       (NewProxyHandler grp ten p1 p2 sh mp mh dp rp rh g)) r)) = Path (URL r)"
  by (simp add: Director_eventsProxy Director_eventMeshProxy Director_appRegistryProxy)

theorem eventMeshProxy_rewrites_path_witness:
  "Path (URL (Director (eventMeshProxy (example_handler ''/publish''))
       (example_request ''/app1/events/sub/path''))) = ''/publish''
   \<and> Path (URL (Director (eventsProxy (example_handler ''/publish''))
       (example_request ''/app1/v1/events/sub''))) = ''/app1/v1/events/sub''
   \<and> Path (URL (Director (appRegistryProxy (example_handler ''/publish''))
       (example_request ''/app1/v1/metadata/services'')))
       = ''/app1/v1/metadata/services''"
  using eventMeshProxy_rewrites_path [of "[]" "[]" "''/app1/v1/events''"
      "''/app1/v2/events''" "''events:8081''" "''/app1/events''" "''mesh:8080''"
      "''/publish''" "''/app1/v1/metadata''" "''registry:8082''" example_getter
      "example_request ''/app1/events/sub/path''"]
    eventMeshProxy_rewrites_path [of "[]" "[]" "''/app1/v1/events''"
      "''/app1/v2/events''" "''events:8081''" "''/app1/events''" "''mesh:8080''"
      "''/publish''" "''/app1/v1/metadata''" "''registry:8082''" example_getter
      "example_request ''/app1/v1/events/sub''"]
    eventMeshProxy_rewrites_path [of "[]" "[]" "''/app1/v1/events''"
      "''/app1/v2/events''" "''events:8081''" "''/app1/events''" "''mesh:8080''"
      "''/publish''" "''/app1/v1/metadata''" "''registry:8082''" example_getter
      "example_request ''/app1/v1/metadata/services''"]
  by (simp add: example_handler_def example_request_def)

subsection \<open>The mesh flag\<close>

text \<open>
  Claim C9: the flag \<open>isBEBEnabled\<close> of a handler built by \<open>NewProxyHandler\<close> is true
  exactly when the destination path of the event mesh is the string \<open>/publish\<close>.
\<close>

theorem isBEBEnabled_iff_publish:
  "isBEBEnabled (NewProxyHandler grp ten p1 p2 sh mp mh dp rp rh g) = (dp = ''/publish'')"
  by (simp add: NewProxyHandler_def BEBEnabledPublishEndpoint_def)

theorem isBEBEnabled_iff_publish_witness:
  "isBEBEnabled (example_handler ''/publish'')
   \<and> \<not> isBEBEnabled (example_handler ''/Publish'')
   \<and> \<not> isBEBEnabled (example_handler ''/publish/'')
   \<and> \<not> isBEBEnabled (example_handler [])"
  using isBEBEnabled_iff_publish [of "[]" "[]" "''/app1/v1/events''"
      "''/app1/v2/events''" "''events:8081''" "''/app1/events''" "''mesh:8080''"
      _ "''/app1/v1/metadata''" "''registry:8082''" example_getter]
  by (simp add: example_handler_def)

subsection \<open>No empty subject\<close>

lemma extractSubjects_loop_filter:
  "extractSubjects_loop acc ms = acc @ filter (\<lambda>s. s \<noteq> []) (map (\<lambda>m. get m 1) ms)"
  by (induction ms arbitrary: acc) (simp_all add: Let_def)

text \<open>
  Claim C10: \<open>extractSubjects\<close> returns the groups of the matches that are not empty,
  in the order of the matches, so no element of its result is the empty string; a
  match \<open>Subject=""\<close> is dropped.
\<close>

theorem extractSubjects_nonempty:
  "extractSubjects certInfoData =
     filter (\<lambda>s. s \<noteq> []) (map (\<lambda>m. get m 1) (FindAllStringSubmatch certInfoData))
   \<and> (\<forall>s \<in> set (extractSubjects certInfoData). s \<noteq> [])"
  by (simp add: extractSubjects_def extractSubjects_loop_filter)

theorem extractSubjects_nonempty_witness:
  "FindAllStringSubmatch chain_header =
     [[''Subject='' @ [dquote] @ ''CN=app1'' @ [dquote], ''CN=app1''],
      [''Subject='' @ [dquote, dquote], []]]
   \<and> extractSubjects chain_header = [''CN=app1'']
   \<and> [] \<notin> set (extractSubjects chain_header)"
proof -
  have m: "FindAllStringSubmatch chain_header =
     [[''Subject='' @ [dquote] @ ''CN=app1'' @ [dquote], ''CN=app1''],
      [''Subject='' @ [dquote, dquote], []]]"
    by (simp add: chain_header_def matchHere_def subjectRegex_literal_def inGroup_def
        dquote_def linefeed_def)
  from extractSubjects_nonempty [of chain_header] m show ?thesis
    by (simp add: get_def)
qed

end
